theory Spec2Isabelle
  imports Complex_Main "HOL-Library.Sublist"
begin

section \<open>JavaScript primitives used by the tasks\<close>

text \<open>
  Strings are \<open>string\<close> (lists of characters). The three string methods the sources
  use are \<open>startsWith\<close>, \<open>includes\<close> (here \<open>includes_str\<close>) and \<open>toLowerCase\<close>. The lower-casing below
  maps the 26 ASCII capitals and leaves every other character alone.
\<close>

definition startsWith :: "string \<Rightarrow> string \<Rightarrow> bool" where
  "startsWith s p = prefix p s"

definition includes_str :: "string \<Rightarrow> string \<Rightarrow> bool" where
  "includes_str s p = sublist p s"

definition lowerChar :: "char \<Rightarrow> char" where
  "lowerChar c =
     (case map_of (zip ''ABCDEFGHIJKLMNOPQRSTUVWXYZ'' ''abcdefghijklmnopqrstuvwxyz'') c of
        Some d \<Rightarrow> d
      | None \<Rightarrow> c)"

definition toLowerCase :: "string \<Rightarrow> string" where
  "toLowerCase s = map lowerChar s"

text \<open>
  An optional string (\<open>string | undefined\<close>) is truthy when it is present and not
  empty: this is what \<open>if (s)\<close> and \<open>!s\<close> test.
\<close>

fun truthy :: "string option \<Rightarrow> bool" where
  "truthy None = False"
| "truthy (Some s) = (s \<noteq> [])"

datatype level = Info | Warn | Error

section \<open>The LLM task (llm-gemini) and the LLM server action\<close>

subsection \<open>MIME type detection\<close>

text \<open>The task-side copy of \<open>detectImageMimeType\<close>.\<close>

definition detectImageMimeType :: "string \<Rightarrow> string" where
  "detectImageMimeType imageBase64 =
     (if startsWith imageBase64 ''/9j/'' then ''image/jpeg''
      else if startsWith imageBase64 ''iVBORw'' then ''image/png''
      else if startsWith imageBase64 ''R0lGOD'' then ''image/gif''
      else if startsWith imageBase64 ''UklGR'' then ''image/webp''
      else ''image/jpeg'')"

text \<open>The copy in the server action \<open>runLlm\<close>.\<close>

definition detectImageMimeType_action :: "string \<Rightarrow> string" where
  "detectImageMimeType_action imageBase64 =
     (if startsWith imageBase64 ''/9j/'' then ''image/jpeg''
      else if startsWith imageBase64 ''iVBORw'' then ''image/png''
      else if startsWith imageBase64 ''R0lGOD'' then ''image/gif''
      else if startsWith imageBase64 ''UklGR'' then ''image/webp''
      else ''image/jpeg'')"

subsection \<open>Payload, prompt parts, environment\<close>

record LLMTaskPayload =
  model :: string
  systemPrompt :: "string option"
  userMessage :: string
  images :: "string list option"

datatype part = Text string | InlineData string string

text \<open>
  The block of \<open>llmTask.run\<close> that builds \<open>parts\<close>: an empty array, one \<open>push\<close> for
  the system prompt when it is truthy, one for the user message, and the \<open>for\<close> loop
  pushing one inline-data part per image.
\<close>

definition pushImage :: "part list \<Rightarrow> string \<Rightarrow> part list" where
  "pushImage parts imageBase64 =
     parts @ [InlineData (detectImageMimeType imageBase64) imageBase64]"

definition llmTask_parts :: "LLMTaskPayload \<Rightarrow> part list" where
  "llmTask_parts payload =
     (let parts0 = [];
          parts1 = (if truthy (systemPrompt payload)
                    then parts0 @ [Text (''System Instructions: '' @ the (systemPrompt payload)
                                          @ [CHR 0x0A, CHR 0x0A])]
                    else parts0);
          parts2 = parts1 @ [Text (userMessage payload)]
      in case images payload of
           None \<Rightarrow> parts2
         | Some imgs \<Rightarrow> if length imgs > 0 then foldl pushImage parts2 imgs else parts2)"

text \<open>
  The environment of one run: the two credentials of \<open>process.env\<close> and the remote
  model, which answers a call (key, model, parts) with a text or raises an error with a
  message. The state records every call made and every log line written.
\<close>

record llm_env =
  GOOGLE_GEMINI_API_KEY :: "string option"
  GOOGLE_GEMINI_API_KEY_BACKUP :: "string option"
  generateContent :: "string \<Rightarrow> string \<Rightarrow> part list \<Rightarrow> string + string"

record llm_state =
  calls :: "(string \<times> string \<times> part list) list"
  llm_logs :: "(level \<times> string) list"

definition llm_log :: "level \<Rightarrow> string \<Rightarrow> llm_state \<Rightarrow> llm_state" where
  "llm_log l m s = s\<lparr>llm_logs := llm_logs s @ [(l, m)]\<rparr>"

definition callGemini ::
  "llm_env \<Rightarrow> LLMTaskPayload \<Rightarrow> string \<Rightarrow> llm_state \<Rightarrow> (string + string) \<times> llm_state" where
  "callGemini env payload key s =
     (generateContent env key (model payload) (llmTask_parts payload),
      s\<lparr>calls := calls s @ [(key, model payload, llmTask_parts payload)]\<rparr>)"

definition isQuotaOrRate :: "string \<Rightarrow> bool" where
  "isQuotaOrRate msg =
     (includes_str msg ''quota'' \<or> includes_str msg ''rate'' \<or> includes_str msg ''429''
      \<or> includes_str msg ''resource_exhausted'')"

definition isApiKeyError :: "string \<Rightarrow> bool" where
  "isApiKeyError msg = (includes_str msg ''api key'' \<or> includes_str msg ''authentication'')"

definition quotaError :: "string \<Rightarrow> string" where
  "quotaError m =
     ''API quota exceeded. Please try again later or check your API key limits. (API: ''
       @ m @ '')''"

definition invalidKeyError :: "string \<Rightarrow> string" where
  "invalidKeyError m =
     ''Invalid API key. Please check your GOOGLE_GEMINI_API_KEY. (API: '' @ m @ '')''"

definition notConfiguredError :: string where
  "notConfiguredError =
     ''GOOGLE_GEMINI_API_KEY is not configured. Please add it to your environment variables.''"

text \<open>
  The \<open>catch\<close> block of \<open>llmTask.run\<close>: \<open>m\<close> is the message of the error raised by the
  call with the primary key \<open>apiKey\<close>.
\<close>

definition llmTask_catch ::
  "llm_env \<Rightarrow> LLMTaskPayload \<Rightarrow> string \<Rightarrow> string \<Rightarrow> llm_state \<Rightarrow> (string + string) \<times> llm_state"
  where
  "llmTask_catch env payload apiKey m s =
     (let msg = toLowerCase m in
      if isQuotaOrRate msg then
        (let backupKey = GOOGLE_GEMINI_API_KEY_BACKUP env in
         if truthy backupKey \<and> the backupKey \<noteq> apiKey then
           (let s1 = llm_log Info ''Quota/rate limit hit with primary key, retrying with backup key...'' s
            in case callGemini env payload (the backupKey) s1 of
                 (Inr text, s2) \<Rightarrow> (Inr text, llm_log Info ''LLM task completed with backup key'' s2)
               | (Inl backupError, s2) \<Rightarrow>
                   (Inl (quotaError m), llm_log Error ''Backup key also failed'' s2))
         else (Inl (quotaError m), s))
      else if isApiKeyError msg then (Inl (invalidKeyError m), s)
      else (Inl m, s))"

definition llmTask ::
  "llm_env \<Rightarrow> LLMTaskPayload \<Rightarrow> llm_state \<Rightarrow> (string + string) \<times> llm_state" where
  "llmTask env payload s0 =
     (let s1 = llm_log Info ''Starting LLM task'' s0;
          apiKey = GOOGLE_GEMINI_API_KEY env
      in if \<not> truthy apiKey then (Inl notConfiguredError, s1)
         else
           (let s2 = (case images payload of
                        None \<Rightarrow> s1
                      | Some imgs \<Rightarrow> if length imgs > 0
                                     then llm_log Info ''Adding images to prompt'' s1 else s1);
                s3 = llm_log Info ''Calling Gemini API...'' s2
            in case callGemini env payload (the apiKey) s3 of
                 (Inr text, s4) \<Rightarrow> (Inr text, llm_log Info ''LLM task completed'' s4)
               | (Inl m, s4) \<Rightarrow> llmTask_catch env payload (the apiKey) m s4))"


subsection \<open>Concrete runs of the LLM task\<close>

definition llm_s0 :: llm_state where
  "llm_s0 = \<lparr>calls = [], llm_logs = []\<rparr>"

definition llm_payload1 :: LLMTaskPayload where
  "llm_payload1 =
     \<lparr>model = ''gemini-1.5-flash'', systemPrompt = Some ''Be brief'', userMessage = ''hi'',
      images = Some [''iVBORw0KGgo'', ''/9j/4AAQ'']\<rparr>"

text \<open>The primary key is out of quota, the backup key works.\<close>

definition llm_env_quota :: llm_env where
  "llm_env_quota =
     \<lparr>GOOGLE_GEMINI_API_KEY = Some ''primary'', GOOGLE_GEMINI_API_KEY_BACKUP = Some ''backup'',
      generateContent = (\<lambda>key mdl ps.
        if key = ''primary'' then Inl ''429 Too Many Requests'' else Inr ''pong'')\<rparr>"




section \<open>Workflow server actions\<close>

text \<open>
  A workflow row, without its timestamps. \<open>folderId\<close> is nullable. The JSON columns
  \<open>nodes\<close> and \<open>edges\<close> hold values of an arbitrary type \<open>'j\<close>. The table is a
  map from the row id: \<open>update\<close> and \<open>delete\<close> address a row by \<open>where: { id }\<close>, so
  the id is the table's unique key.
\<close>

record 'j workflow =
  wf_id :: string
  wf_name :: string
  wf_thumbnail :: "string option"
  wf_folderId :: "string option"
  wf_nodes :: "'j list"
  wf_edges :: "'j list"
  wf_userId :: string

type_synonym 'j workflow_table = "string \<rightharpoonup> 'j workflow"

record AuthUser =
  user_id :: string
  clerkUserId :: string
  email :: string

text \<open>The input of \<open>updateWorkflow\<close>: every field but \<open>id\<close> may be undefined.\<close>

record 'j update_input =
  in_id :: string
  in_name :: "string option"
  in_folderId :: "string option option"
  in_nodes :: "'j list option"
  in_edges :: "'j list option"
  in_thumbnail :: "string option"

text \<open>\<open>prisma.workflow.findFirst({ where: { id, userId } })\<close>.\<close>

definition findFirst :: "'j workflow_table \<Rightarrow> string \<Rightarrow> string \<Rightarrow> 'j workflow option" where
  "findFirst db i uid =
     (case db i of
        None \<Rightarrow> None
      | Some w \<Rightarrow> if wf_userId w = uid then Some w else None)"

text \<open>The \<open>data\<close> object of \<open>updateWorkflow\<close>, applied to a row: only the fields that
  are not undefined are written.\<close>

definition applyData :: "'j update_input \<Rightarrow> 'j workflow \<Rightarrow> 'j workflow" where
  "applyData rest w =
     (let w1 = (case in_name rest of None \<Rightarrow> w | Some n \<Rightarrow> w\<lparr>wf_name := n\<rparr>);
          w2 = (case in_folderId rest of None \<Rightarrow> w1 | Some f \<Rightarrow> w1\<lparr>wf_folderId := f\<rparr>);
          w3 = (case in_nodes rest of None \<Rightarrow> w2 | Some ns \<Rightarrow> w2\<lparr>wf_nodes := ns\<rparr>);
          w4 = (case in_edges rest of None \<Rightarrow> w3 | Some es \<Rightarrow> w3\<lparr>wf_edges := es\<rparr>)
      in case in_thumbnail rest of None \<Rightarrow> w4 | Some t \<Rightarrow> w4\<lparr>wf_thumbnail := Some t\<rparr>)"

text \<open>
  Both actions take the outcome of \<open>getAuthUser\<close> (the authenticated user, or the error
  it raised) and the table, and return their result with the table afterwards.
\<close>

definition updateWorkflow ::
  "string + AuthUser \<Rightarrow> 'j update_input \<Rightarrow> 'j workflow_table
     \<Rightarrow> (string + 'j workflow) \<times> 'j workflow_table" where
  "updateWorkflow auth input db =
     (case auth of
        Inl e \<Rightarrow> (Inl e, db)
      | Inr user \<Rightarrow>
          (case findFirst db (in_id input) (user_id user) of
             None \<Rightarrow> (Inl ''Workflow not found'', db)
           | Some existing \<Rightarrow>
               (case db (in_id input) of
                  None \<Rightarrow> (Inl ''Record to update not found.'', db)
                | Some row \<Rightarrow>
                    (let workflow = applyData input row
                     in (Inr workflow, db(in_id input \<mapsto> workflow))))))"

definition deleteWorkflow ::
  "string + AuthUser \<Rightarrow> string \<Rightarrow> 'j workflow_table \<Rightarrow> (string + string) \<times> 'j workflow_table"
  where
  "deleteWorkflow auth i db =
     (case auth of
        Inl e \<Rightarrow> (Inl e, db)
      | Inr user \<Rightarrow>
          (case findFirst db i (user_id user) of
             None \<Rightarrow> (Inl ''Workflow not found'', db)
           | Some existing \<Rightarrow>
               (case db i of
                  None \<Rightarrow> (Inl ''Record to delete does not exist.'', db)
                | Some row \<Rightarrow> (Inr ''Workflow deleted successfully'', db(i := None)))))"

subsection \<open>A concrete table\<close>

definition alice :: AuthUser where
  "alice = \<lparr>user_id = ''u-alice'', clerkUserId = ''clerk-a'', email = ''alice@example.org''\<rparr>"

definition bob :: AuthUser where
  "bob = \<lparr>user_id = ''u-bob'', clerkUserId = ''clerk-b'', email = ''bob@example.org''\<rparr>"

definition wf1 :: "nat workflow" where
  "wf1 = \<lparr>wf_id = ''w1'', wf_name = ''untitled'', wf_thumbnail = None, wf_folderId = None,
          wf_nodes = [], wf_edges = [], wf_userId = ''u-alice''\<rparr>"

definition table1 :: "nat workflow_table" where
  "table1 = [''w1'' \<mapsto> wf1]"

definition rename1 :: "nat update_input" where
  "rename1 = \<lparr>in_id = ''w1'', in_name = Some ''renamed'', in_folderId = None, in_nodes = None,
              in_edges = None, in_thumbnail = None\<rparr>"


section \<open>The media tasks (crop-image, extract-video-frame)\<close>

subsection \<open>Numbers, errors, the world outside\<close>

text \<open>
  JavaScript numbers are modelled as exact rationals: no rounding error, no NaN, no
  infinities. \<open>Math.round\<close> rounds to the nearest integer, halves upwards. Errors are
  the messages of the \<open>Error\<close> objects thrown.
\<close>

type_synonym number = rat

definition Math_round :: "number \<Rightarrow> int" where
  "Math_round v = \<lfloor>v + 1 / 2\<rfloor>"

fun showNat :: "nat \<Rightarrow> string" where
  "showNat n =
     (if n < 10 then [char_of (48 + n)]
      else showNat (n div 10) @ [char_of (48 + n mod 10)])"

declare showNat.simps [simp del]

definition path_join :: "string \<Rightarrow> string \<Rightarrow> string" where
  "path_join dir name = dir @ ''/'' @ name"

text \<open>\<open>a || b\<close> on optional strings, with a final default.\<close>

definition orElse :: "string option \<Rightarrow> string \<Rightarrow> string" where
  "orElse a d = (if truthy a then the a else d)"

record http_res =
  res_ok :: bool
  res_status :: nat

text \<open>The JSON answer to the creation of an assembly, and to a status fetch. In
  \<open>poll_results\<close> each step name is mapped to its result items, an item being its
  \<open>ssl_url\<close> when it has one.\<close>

record assembly_res =
  assembly_ssl_url :: "string option"
  as_error :: "string option"
  as_message :: "string option"

record poll_res =
  poll_ok :: "string option"
  poll_results :: "(string \<times> string option list) list"
  poll_error :: "string option"

text \<open>\<open>pollData.results?.step?.[0]?.ssl_url\<close>.\<close>

definition first_url :: "string \<Rightarrow> poll_res \<Rightarrow> string option" where
  "first_url step pollData =
     (case map_of (poll_results pollData) step of
        None \<Rightarrow> None
      | Some [] \<Rightarrow> None
      | Some (item # rest) \<Rightarrow> item)"

text \<open>
  The assemblies the tasks create: the upload of a local file followed by a store step
  (\<open>uploadCroppedImageToTransloadit\<close>), the upload of a local file alone (the V2 upload
  and \<open>uploadFrameToTransloadit\<close>), the import of a URL followed by a percentage crop
  with corners x1, y1, x2, y2, and the import of a URL followed by one thumbnail at an
  offset in seconds. The first argument is the auth key.
\<close>

datatype request =
    UploadStore string string
  | UploadImport string string
  | CropFromUrl string string number number number number
  | ThumbsFromUrl string string number

text \<open>The commands run through \<open>execSync\<close>: the FFmpeg crop (binary, input, w, h, x,
  y, output), the duration probe (binary, file) and the single-frame extraction (binary,
  timestamp, video, frame).\<close>

datatype command =
    FfmpegCrop string string int int int int string
  | FfprobeDuration string string
  | FfmpegFrame string number string string

text \<open>
  Everything a run reads from outside. \<open>create_assembly n r\<close> is the answer to request
  \<open>r\<close> when \<open>n\<close> assemblies were created before it in the run; \<open>assembly_status u n\<close>
  is the answer to a status fetch of \<open>u\<close> when \<open>n\<close> status fetches were made before it.
  \<open>execSync\<close> returns the command's output or the message of the error it throws.
  \<open>parseFloat\<close> is JavaScript's, with \<open>None\<close> for a result that is not finite.

  What the model takes for granted: \<open>fetch\<close> and the decoding of a JSON body do not
  reject (a refused download is an answer whose \<open>ok\<close> is false); \<open>mkdtemp\<close>,
  \<open>writeFile\<close> and \<open>rm\<close> succeed; a successful FFmpeg command has written its output
  file; \<open>readFile\<close> throws when the path is not in the file system.
\<close>

record env =
  TRANSLOADIT_AUTH_KEY :: string
  os_tmpdir :: string
  mkdtemp :: "string \<Rightarrow> string"
  fetch :: "string \<Rightarrow> http_res"
  imageSizeFromFile :: "string \<Rightarrow> int option \<times> int option"
  ffmpeg_static :: "string option"
  ffprobe_static :: "string option"
  execSync :: "command \<Rightarrow> string + string"
  parseFloat :: "string \<Rightarrow> number option"
  create_assembly :: "nat \<Rightarrow> request \<Rightarrow> assembly_res"
  assembly_status :: "string \<Rightarrow> nat \<Rightarrow> poll_res"

text \<open>What a run leaves behind: the paths in the file system, the log, the commands
  run, the assemblies requested and the number of status fetches made.\<close>

record st =
  files :: "string list"
  logs :: "(level \<times> string) list"
  execs :: "command list"
  posts :: "request list"
  polls :: nat

type_synonym 'a res = "(string + 'a) \<times> st"

definition logger :: "level \<Rightarrow> string \<Rightarrow> st \<Rightarrow> st" where
  "logger l m s = s\<lparr>logs := logs s @ [(l, m)]\<rparr>"

definition writeFile :: "string \<Rightarrow> st \<Rightarrow> st" where
  "writeFile p s = s\<lparr>files := files s @ [p]\<rparr>"

definition inside :: "string \<Rightarrow> string \<Rightarrow> bool" where
  "inside dir p = (p = dir \<or> prefix (dir @ ''/'') p)"

text \<open>\<open>fs.rm(dir, { recursive: true, force: true })\<close>.\<close>

definition rm_rf :: "string \<Rightarrow> st \<Rightarrow> st" where
  "rm_rf dir s = s\<lparr>files := filter (\<lambda>p. \<not> inside dir p) (files s)\<rparr>"

definition readFile :: "string \<Rightarrow> st \<Rightarrow> string + unit" where
  "readFile p s =
     (if p \<in> set (files s) then Inr ()
      else Inl (''ENOENT: no such file or directory, open '' @ p))"

definition post :: "env \<Rightarrow> request \<Rightarrow> st \<Rightarrow> assembly_res \<times> st" where
  "post e r s = (create_assembly e (length (posts s)) r, s\<lparr>posts := posts s @ [r]\<rparr>)"

definition run_exec :: "env \<Rightarrow> command \<Rightarrow> st \<Rightarrow> string res" where
  "run_exec e c s = (execSync e c, s\<lparr>execs := execs s @ [c]\<rparr>)"

subsection \<open>Waiting for an assembly\<close>

definition timedOut :: string where
  "timedOut = ''Transloadit assembly timed out''"

text \<open>
  The polling loop of the three upload functions,
  \<open>for (let attempt = 0; attempt < N; attempt++)\<close>: a completed assembly returns
  its first URL or throws \<open>missing\<close>, a reported error is thrown, anything else goes
  round again; after the loop the timeout is thrown. \<open>N\<close> is 60 in the two crop
  uploads and 90 in the frame upload.
\<close>

function upload_poll ::
  "env \<Rightarrow> string \<Rightarrow> string \<Rightarrow> string \<Rightarrow> nat \<Rightarrow> nat \<Rightarrow> st \<Rightarrow> string res" where
  "upload_poll e step missing assemblyUrl N attempt s =
     (if attempt < N then
        (let pollData = assembly_status e assemblyUrl (polls s);
             s' = s\<lparr>polls := Suc (polls s)\<rparr>
         in if poll_ok pollData = Some ''ASSEMBLY_COMPLETED'' then
              (if truthy (first_url step pollData)
               then (Inr (the (first_url step pollData)), s')
               else (Inl missing, s'))
            else if truthy (poll_error pollData) then (Inl (the (poll_error pollData)), s')
            else upload_poll e step missing assemblyUrl N (Suc attempt) s')
      else (Inl timedOut, s))"
  by pat_completeness auto
termination
  by (relation "measure (\<lambda>(e, step, missing, assemblyUrl, N, attempt, s). N - attempt)") auto

declare upload_poll.simps [simp del]

text \<open>
  The polling loop of the two remote strategies, \<open>for (let i = 0; i < N; i++)\<close>: only a
  completed assembly with a URL returns; on the last round (\<open>i === N - 1\<close>) the timeout
  is thrown inside the loop. \<open>N\<close> is 60 for the crop and 90 for the frame.
\<close>

function remote_poll :: "env \<Rightarrow> string \<Rightarrow> string \<Rightarrow> nat \<Rightarrow> nat \<Rightarrow> st \<Rightarrow> string res" where
  "remote_poll e step assemblyUrl N i s =
     (if i < N then
        (let pollJson = assembly_status e assemblyUrl (polls s);
             s' = s\<lparr>polls := Suc (polls s)\<rparr>
         in if poll_ok pollJson = Some ''ASSEMBLY_COMPLETED'' \<and> truthy (first_url step pollJson)
            then (Inr (the (first_url step pollJson)), s')
            else if Suc i = N then (Inl timedOut, s')
            else remote_poll e step assemblyUrl N (Suc i) s')
      else (Inl timedOut, s))"
  by pat_completeness auto
termination
  by (relation "measure (\<lambda>(e, step, assemblyUrl, N, i, s). N - i)") auto

declare remote_poll.simps [simp del]

subsection \<open>Helpers of the crop task\<close>

definition getImageDimensions :: "env \<Rightarrow> string \<Rightarrow> string + (int \<times> int)" where
  "getImageDimensions e filePath =
     (case imageSizeFromFile e filePath of
        (Some width, Some height) \<Rightarrow> Inr (width, height)
      | _ \<Rightarrow> Inl (''Could not get image dimensions: '' @ filePath))"

definition getFfmpegPath :: "env \<Rightarrow> string + string" where
  "getFfmpegPath e =
     (if truthy (ffmpeg_static e) then Inr (the (ffmpeg_static e))
      else Inl ''ffmpeg-static path not found'')"

definition keyNotConfigured :: string where
  "keyNotConfigured = ''NEXT_PUBLIC_TRANSLOADIT_KEY is not configured.''"

definition uploadCroppedImageToTransloadit :: "env \<Rightarrow> string \<Rightarrow> st \<Rightarrow> string res" where
  "uploadCroppedImageToTransloadit e localPath s =
     (if TRANSLOADIT_AUTH_KEY e = [] then (Inl keyNotConfigured, s)
      else case readFile localPath s of
        Inl err \<Rightarrow> (Inl err, s)
      | Inr _ \<Rightarrow>
          (case post e (UploadStore (TRANSLOADIT_AUTH_KEY e) localPath) s of
             (data, s1) \<Rightarrow>
               if truthy (as_error data) \<or> truthy (as_message data)
               then (Inl (orElse (as_message data)
                            (orElse (as_error data) ''Transloadit assembly failed'')), s1)
               else if \<not> truthy (assembly_ssl_url data)
               then (Inl ''No assembly URL in response'', s1)
               else upload_poll e ''exported'' ''No export URL in assembly result''
                      (the (assembly_ssl_url data)) 60 0 s1))"

definition uploadNotConfigured :: string where
  "uploadNotConfigured =
     ''Transloadit file upload not configured. Cropped image was created with FFmpeg but upload failed. ''
     @ ''Ensure Transloadit supports file import or use a store step.''"

definition uploadCroppedImageToTransloaditV2 :: "env \<Rightarrow> string \<Rightarrow> st \<Rightarrow> string res" where
  "uploadCroppedImageToTransloaditV2 e localPath s =
     (if TRANSLOADIT_AUTH_KEY e = [] then (Inl keyNotConfigured, s)
      else case readFile localPath s of
        Inl err \<Rightarrow> (Inl err, s)
      | Inr _ \<Rightarrow>
          (case post e (UploadImport (TRANSLOADIT_AUTH_KEY e) localPath) s of
             (data, s1) \<Rightarrow>
               if truthy (as_error data) \<or> truthy (as_message data)
               then (Inl uploadNotConfigured,
                     logger Warn ''Transloadit file/import failed, trying HTTP import fallback'' s1)
               else if \<not> truthy (assembly_ssl_url data)
               then (Inl ''No assembly URL in response'', s1)
               else upload_poll e ''imported'' ''No import URL in assembly result''
                      (the (assembly_ssl_url data)) 60 0 s1))"

text \<open>\<open>cropViaTransloadit\<close>, the closure inside the task: it reads the image URL and
  the four percentages of the payload.\<close>

definition cropViaTransloadit ::
  "env \<Rightarrow> string \<Rightarrow> number \<Rightarrow> number \<Rightarrow> number \<Rightarrow> number \<Rightarrow> st \<Rightarrow> string res" where
  "cropViaTransloadit e imageUrl cropX cropY cropWidth cropHeight s =
     (case post e (CropFromUrl (TRANSLOADIT_AUTH_KEY e) imageUrl cropX cropY
                     (cropX + cropWidth) (cropY + cropHeight)) s of
        (data, s1) \<Rightarrow>
          if truthy (as_error data) \<or> \<not> truthy (assembly_ssl_url data)
          then (Inl (orElse (as_error data) ''Transloadit assembly failed''), s1)
          else remote_poll e ''cropped'' (the (assembly_ssl_url data)) 60 0 s1)"

subsection \<open>The crop task\<close>

record CropImageTaskPayload =
  imageUrl :: string
  cropX :: number
  cropY :: number
  cropWidth :: number
  cropHeight :: number

text \<open>Step 2 of \<open>cropImageTask.run\<close> after the dimensions are known: the rounded
  pixel rectangle and its clamping, returned as (x1, y1, w1, h1).\<close>

definition cropRect ::
  "int \<Rightarrow> int \<Rightarrow> number \<Rightarrow> number \<Rightarrow> number \<Rightarrow> number \<Rightarrow> int \<times> int \<times> int \<times> int" where
  "cropRect width height cx cy cw ch =
     (let x = Math_round ((of_int width * cx) / 100);
          y = Math_round ((of_int height * cy) / 100);
          w = Math_round ((of_int width * cw) / 100);
          h = Math_round ((of_int height * ch) / 100);
          x1 = max 0 (min x (width - 1));
          y1 = max 0 (min y (height - 1));
          w1 = max 1 (min w (width - x1));
          h1 = max 1 (min h (height - y1))
      in (x1, y1, w1, h1))"

text \<open>The body of the inner \<open>try\<close> of step 3: FFmpeg crops the downloaded file, the
  result is uploaded.\<close>

definition crop_ffmpeg_upload ::
  "env \<Rightarrow> string \<Rightarrow> string \<Rightarrow> int \<times> int \<times> int \<times> int \<Rightarrow> st \<Rightarrow> string res" where
  "crop_ffmpeg_upload e inputPath outputPath rect s =
     (case rect of (x1, y1, w1, h1) \<Rightarrow>
        (case getFfmpegPath e of
           Inl err \<Rightarrow> (Inl err, s)
         | Inr ffmpegPath \<Rightarrow>
             (case run_exec e (FfmpegCrop ffmpegPath inputPath w1 h1 x1 y1 outputPath) s of
                (Inl err, s1) \<Rightarrow> (Inl err, s1)
              | (Inr out, s1) \<Rightarrow>
                  uploadCroppedImageToTransloaditV2 e outputPath (writeFile outputPath s1))))"

definition cropWarning :: string where
  "cropWarning = ''FFmpeg crop or upload failed; using Transloadit crop-from-URL''"

text \<open>Step 3, the \<open>try\<close> with its \<open>catch\<close>.\<close>

definition cropImageTask_step3 ::
  "env \<Rightarrow> CropImageTaskPayload \<Rightarrow> string \<Rightarrow> string \<Rightarrow> int \<times> int \<times> int \<times> int \<Rightarrow> st
     \<Rightarrow> string res" where
  "cropImageTask_step3 e payload inputPath outputPath rect s =
     (case crop_ffmpeg_upload e inputPath outputPath rect s of
        (Inr url, s1) \<Rightarrow> (Inr url, s1)
      | (Inl ffmpegOrUploadErr, s1) \<Rightarrow>
          cropViaTransloadit e (imageUrl payload) (cropX payload) (cropY payload)
            (cropWidth payload) (cropHeight payload) (logger Warn cropWarning s1))"

text \<open>The body of the outer \<open>try\<close>, whose \<open>finally\<close> removes the scratch directory.\<close>

definition cropImageTask_try ::
  "env \<Rightarrow> CropImageTaskPayload \<Rightarrow> string \<Rightarrow> st \<Rightarrow> string res" where
  "cropImageTask_try e payload tmpDir s =
     (let inputPath = path_join tmpDir ''input.jpg'';
          outputPath = path_join tmpDir ''output.jpg'';
          imageRes = fetch e (imageUrl payload)
      in if \<not> res_ok imageRes
         then (Inl (''Failed to fetch image: '' @ showNat (res_status imageRes)), s)
         else
           (let s1 = writeFile inputPath s
            in case getImageDimensions e inputPath of
                 Inl err \<Rightarrow> (Inl err, s1)
               | Inr (width, height) \<Rightarrow>
                   (let rect = cropRect width height (cropX payload) (cropY payload)
                                 (cropWidth payload) (cropHeight payload);
                        s2 = logger Info ''Crop dimensions'' s1
                    in case cropImageTask_step3 e payload inputPath outputPath rect s2 of
                         (Inl err, s3) \<Rightarrow> (Inl err, s3)
                       | (Inr croppedUrl, s3) \<Rightarrow>
                           if croppedUrl = []
                           then (Inl ''Failed to get cropped image URL'', s3)
                           else (Inr croppedUrl, logger Info ''Crop image task completed'' s3))))"

definition cropImageTask :: "env \<Rightarrow> CropImageTaskPayload \<Rightarrow> st \<Rightarrow> string res" where
  "cropImageTask e payload s0 =
     (let s1 = logger Info ''Starting crop image task (FFmpeg)'' s0;
          tmpDir = mkdtemp e (path_join (os_tmpdir e) ''crop-'');
          s2 = writeFile tmpDir s1
      in case cropImageTask_try e payload tmpDir s2 of
           (r, s3) \<Rightarrow> (r, rm_rf tmpDir s3))"

subsection \<open>The frame-extraction task\<close>

record ExtractFrameTaskPayload =
  videoUrl :: string
  timestamp :: number
  timestampPercent :: "number option"

definition getFfprobePath :: "env \<Rightarrow> string + string" where
  "getFfprobePath e =
     (if truthy (ffprobe_static e) then Inr (the (ffprobe_static e))
      else Inl ''ffprobe-static path not found'')"

definition isSpace :: "char \<Rightarrow> bool" where
  "isSpace c = (c \<in> {CHR '' '', CHR 0x09, CHR 0x0A, CHR 0x0D})"

definition trim :: "string \<Rightarrow> string" where
  "trim s = rev (dropWhile isSpace (rev (dropWhile isSpace s)))"

definition getVideoDuration :: "env \<Rightarrow> string \<Rightarrow> st \<Rightarrow> number res" where
  "getVideoDuration e filePath s =
     (case getFfprobePath e of
        Inl err \<Rightarrow> (Inl err, s)
      | Inr ffprobePath \<Rightarrow>
          (case run_exec e (FfprobeDuration ffprobePath filePath) s of
             (Inl err, s1) \<Rightarrow> (Inl err, s1)
           | (Inr raw, s1) \<Rightarrow>
               (let out = trim raw
                in case parseFloat e out of
                     None \<Rightarrow> (Inl (''Could not get video duration: '' @ out), s1)
                   | Some duration \<Rightarrow>
                       if duration < 0
                       then (Inl (''Could not get video duration: '' @ out), s1)
                       else (Inr duration, s1))))"

definition uploadFrameToTransloadit :: "env \<Rightarrow> string \<Rightarrow> st \<Rightarrow> string res" where
  "uploadFrameToTransloadit e localPath s =
     (if TRANSLOADIT_AUTH_KEY e = [] then (Inl keyNotConfigured, s)
      else case readFile localPath s of
        Inl err \<Rightarrow> (Inl err, s)
      | Inr _ \<Rightarrow>
          (case post e (UploadImport (TRANSLOADIT_AUTH_KEY e) localPath) s of
             (data, s1) \<Rightarrow>
               if truthy (as_error data) \<or> truthy (as_message data)
               then (Inl (orElse (as_message data)
                            (orElse (as_error data) ''Transloadit assembly failed'')), s1)
               else if \<not> truthy (assembly_ssl_url data)
               then (Inl ''No assembly URL in response'', s1)
               else upload_poll e ''imported'' ''No import URL in assembly result''
                      (the (assembly_ssl_url data)) 90 0 s1))"

text \<open>\<open>extractFrameViaTransloadit\<close>, the closure inside the task: it reads the video
  URL of the payload.\<close>

definition extractFrameViaTransloadit :: "env \<Rightarrow> string \<Rightarrow> number \<Rightarrow> st \<Rightarrow> string res" where
  "extractFrameViaTransloadit e url offsetSeconds s =
     (if TRANSLOADIT_AUTH_KEY e = []
      then (Inl ''NEXT_PUBLIC_TRANSLOADIT_KEY is not configured'', s)
      else case post e (ThumbsFromUrl (TRANSLOADIT_AUTH_KEY e) url offsetSeconds) s of
        (data, s1) \<Rightarrow>
          if truthy (as_error data) \<or> \<not> truthy (assembly_ssl_url data)
          then (Inl (orElse (as_error data) ''Transloadit assembly failed''), s1)
          else remote_poll e ''frame'' (the (assembly_ssl_url data)) 90 0 s1)"

text \<open>Step 2 of the inner \<open>try\<close>: the timestamp in seconds, from the duration when a
  percentage is given.\<close>

definition resolveTimestamp :: "env \<Rightarrow> ExtractFrameTaskPayload \<Rightarrow> string \<Rightarrow> st \<Rightarrow> number res"
  where
  "resolveTimestamp e payload videoPath s =
     (case timestampPercent payload of
        None \<Rightarrow> (Inr (timestamp payload), s)
      | Some percent \<Rightarrow>
          (case getVideoDuration e videoPath s of
             (Inl err, s1) \<Rightarrow> (Inl err, s1)
           | (Inr duration, s1) \<Rightarrow>
               (Inr ((duration * percent) / 100),
                logger Info ''Resolved timestamp from percentage'' s1)))"

definition uploadWarning :: string where
  "uploadWarning = ''Transloadit file upload failed; using Transloadit video/thumbs fallback''"

text \<open>Step 4 of the inner \<open>try\<close>: the upload of the frame with its own \<open>catch\<close>.\<close>

definition extractFrameTask_step4 ::
  "env \<Rightarrow> ExtractFrameTaskPayload \<Rightarrow> string \<Rightarrow> number \<Rightarrow> st \<Rightarrow> string res" where
  "extractFrameTask_step4 e payload framePath timestampSeconds s =
     (case uploadFrameToTransloadit e framePath s of
        (Inr url, s1) \<Rightarrow> (Inr url, s1)
      | (Inl uploadErr, s1) \<Rightarrow>
          extractFrameViaTransloadit e (videoUrl payload) timestampSeconds
            (logger Warn uploadWarning s1))"

text \<open>The body of the inner \<open>try\<close>: download, timestamp, FFmpeg, upload.\<close>

definition extract_ffmpeg_upload ::
  "env \<Rightarrow> ExtractFrameTaskPayload \<Rightarrow> string \<Rightarrow> string \<Rightarrow> st \<Rightarrow> string res" where
  "extract_ffmpeg_upload e payload videoPath framePath s =
     (let videoRes = fetch e (videoUrl payload)
      in if \<not> res_ok videoRes
         then (Inl (''Failed to fetch video: '' @ showNat (res_status videoRes)), s)
         else
           (case resolveTimestamp e payload videoPath (writeFile videoPath s) of
              (Inl err, s1) \<Rightarrow> (Inl err, s1)
            | (Inr timestampSeconds, s1) \<Rightarrow>
                (case getFfmpegPath e of
                   Inl err \<Rightarrow> (Inl err, s1)
                 | Inr ffmpegPath \<Rightarrow>
                     (case run_exec e (FfmpegFrame ffmpegPath timestampSeconds videoPath framePath) s1 of
                        (Inl err, s2) \<Rightarrow> (Inl err, s2)
                      | (Inr out, s2) \<Rightarrow>
                          extractFrameTask_step4 e payload framePath timestampSeconds
                            (writeFile framePath s2)))))"

definition extractWarning :: string where
  "extractWarning = ''FFmpeg extract failed; using Transloadit video/thumbs''"

text \<open>The offset the outer \<open>catch\<close> passes to the remote strategy.\<close>

definition offsetSeconds :: "ExtractFrameTaskPayload \<Rightarrow> number" where
  "offsetSeconds payload =
     (case timestampPercent payload of
        Some percent \<Rightarrow> (percent / 100) * 60
      | None \<Rightarrow> timestamp payload)"

text \<open>The inner \<open>try\<close> with its \<open>catch\<close>.\<close>

definition extractFrameTask_chain ::
  "env \<Rightarrow> ExtractFrameTaskPayload \<Rightarrow> string \<Rightarrow> string \<Rightarrow> st \<Rightarrow> string res" where
  "extractFrameTask_chain e payload videoPath framePath s =
     (case extract_ffmpeg_upload e payload videoPath framePath s of
        (Inr url, s1) \<Rightarrow> (Inr url, s1)
      | (Inl ffmpegErr, s1) \<Rightarrow>
          extractFrameViaTransloadit e (videoUrl payload) (offsetSeconds payload)
            (logger Warn extractWarning s1))"

definition extractFrameTask_try ::
  "env \<Rightarrow> ExtractFrameTaskPayload \<Rightarrow> string \<Rightarrow> st \<Rightarrow> string res" where
  "extractFrameTask_try e payload tmpDir s =
     (let videoPath = path_join tmpDir ''video'';
          framePath = path_join tmpDir ''frame.jpg''
      in case extractFrameTask_chain e payload videoPath framePath s of
           (Inl err, s1) \<Rightarrow> (Inl err, s1)
         | (Inr frameUrl, s1) \<Rightarrow>
             if frameUrl = []
             then (Inl ''Failed to get frame image URL'', s1)
             else (Inr frameUrl, logger Info ''Extract frame task completed'' s1))"

definition extractFrameTask :: "env \<Rightarrow> ExtractFrameTaskPayload \<Rightarrow> st \<Rightarrow> string res" where
  "extractFrameTask e payload s0 =
     (let s1 = logger Info ''Starting extract frame task (FFmpeg)'' s0;
          tmpDir = mkdtemp e (path_join (os_tmpdir e) ''extract-frame-'');
          s2 = writeFile tmpDir s1
      in case extractFrameTask_try e payload tmpDir s2 of
           (r, s3) \<Rightarrow> (r, rm_rf tmpDir s3))"

subsection \<open>The fallback chain of the specification\<close>

text \<open>
  The chain as the specification words it: the strategies are tried in order, the first
  success is returned; a strategy that raises is logged, with the warning that goes with
  it, and the next one is tried; the error of the last strategy is the chain's error.
\<close>

type_synonym strategy = "st \<Rightarrow> string res"

fun fallbackChain :: "(strategy \<times> string) list \<Rightarrow> strategy \<Rightarrow> strategy" where
  "fallbackChain [] final s = final s"
| "fallbackChain ((strat, warning) # rest) final s =
     (case strat s of
        (Inr v, s1) \<Rightarrow> (Inr v, s1)
      | (Inl err, s1) \<Rightarrow> fallbackChain rest final (logger Warn warning s1))"

subsection \<open>Vocabulary of the properties, and concrete worlds\<close>

text \<open>A status answer that is not terminal: the assembly is neither completed nor in
  error.\<close>

definition pending :: "poll_res \<Rightarrow> bool" where
  "pending pd = (poll_ok pd \<noteq> Some ''ASSEMBLY_COMPLETED'' \<and> \<not> truthy (poll_error pd))"

definition st0 :: st where
  "st0 = \<lparr>files = [], logs = [], execs = [], posts = [], polls = 0\<rparr>"

definition completed :: poll_res where
  "completed =
     \<lparr>poll_ok = Some ''ASSEMBLY_COMPLETED'',
      poll_results = [(''imported'', [Some ''https://cdn/stored.jpg'']),
                      (''cropped'', [Some ''https://cdn/cropped.jpg'']),
                      (''frame'', [Some ''https://cdn/frame.jpg''])],
      poll_error = None\<rparr>"

definition executing :: poll_res where
  "executing = \<lparr>poll_ok = Some ''ASSEMBLY_EXECUTING'', poll_results = [], poll_error = None\<rparr>"

text \<open>A world where everything works: FFmpeg and ffprobe are installed, the video
  lasts 120 seconds, the image is 1000 by 500, every assembly is accepted and is
  completed at the first status fetch.\<close>

definition world_ok :: env where
  "world_ok =
     \<lparr>TRANSLOADIT_AUTH_KEY = ''key'',
      os_tmpdir = ''/tmp'',
      mkdtemp = (\<lambda>p. p @ ''Ab12'') ,
      fetch = (\<lambda>u. \<lparr>res_ok = True, res_status = 200\<rparr>),
      imageSizeFromFile = (\<lambda>p. (Some 1000, Some 500)),
      ffmpeg_static = Some ''/bin/ffmpeg'',
      ffprobe_static = Some ''/bin/ffprobe'',
      execSync = (\<lambda>c. case c of FfprobeDuration b f \<Rightarrow> Inr ''120.000000'' | _ \<Rightarrow> Inr []),
      parseFloat = (\<lambda>s. if s = ''120.000000'' then Some 120 else None),
      create_assembly = (\<lambda>n r. \<lparr>assembly_ssl_url = Some ''https://api2/assemblies/1'',
                                  as_error = None, as_message = None\<rparr>),
      assembly_status = (\<lambda>u n. completed)\<rparr>"

text \<open>The same world without the FFmpeg binary; the same world where uploads of
  local files are refused; the same world where no assembly ever leaves the executing
  state; and the world where the download is refused too.\<close>

definition world_no_ffmpeg :: env where
  "world_no_ffmpeg = world_ok\<lparr>ffmpeg_static := None\<rparr>"

definition world_no_upload :: env where
  "world_no_upload =
     world_ok\<lparr>create_assembly := (\<lambda>n r. case r of
        UploadImport k p \<Rightarrow> \<lparr>assembly_ssl_url = None, as_error = Some ''INVALID_FILE'',
                                as_message = None\<rparr>
      | _ \<Rightarrow> \<lparr>assembly_ssl_url = Some ''https://api2/assemblies/1'',
               as_error = None, as_message = None\<rparr>)\<rparr>"

definition world_stalled :: env where
  "world_stalled = world_ok\<lparr>assembly_status := (\<lambda>u n. executing)\<rparr>"

definition world_offline :: env where
  "world_offline = world_stalled\<lparr>fetch := (\<lambda>u. \<lparr>res_ok = False, res_status = 404\<rparr>)\<rparr>"

definition crop_payload1 :: CropImageTaskPayload where
  "crop_payload1 =
     \<lparr>imageUrl = ''https://img/a.jpg'', cropX = 10, cropY = 20, cropWidth = 50,
      cropHeight = 60\<rparr>"

definition extract_payload1 :: ExtractFrameTaskPayload where
  "extract_payload1 =
     \<lparr>videoUrl = ''https://v/clip.mp4'', timestamp = 0, timestampPercent = Some 50\<rparr>"

text \<open>An operation that gave up: it failed before any status fetch, or it fetched
  the status exactly \<open>N\<close> times and failed with the timeout.\<close>

definition gave_up :: "st \<Rightarrow> nat \<Rightarrow> string res \<Rightarrow> bool" where
  "gave_up s N out =
     (case out of (r, s') \<Rightarrow>
        (isl r \<and> polls s' = polls s) \<or> (r = Inl timedOut \<and> polls s' = polls s + N))"

text \<open>A state that already holds a file outside any scratch directory, and a stale
  file under the name the crop task's scratch directory will get.\<close>

definition st1 :: st where
  "st1 = st0\<lparr>files := [''/srv/keep.txt'', ''/tmp/crop-Ab12/stale.jpg'']\<rparr>"

section \<open>Properties of the LLM task\<close>

lemma startsWith_simps:
  "startsWith s [] = True"
  "startsWith [] (c # p) = False"
  "startsWith (d # s) (c # p) = (d = c \<and> startsWith s p)"
  by (auto simp: startsWith_def)

text \<open>
  C9: the MIME type detection returns one of the four image types for every input,
  returns JPEG whenever none of the four magic prefixes starts the input, and the task's
  copy and the server action's copy agree on every input.
\<close>

theorem detectImageMimeType_closed:
  "detectImageMimeType s \<in> {''image/jpeg'', ''image/png'', ''image/gif'', ''image/webp''}
   \<and> (\<not> (startsWith s ''/9j/'' \<or> startsWith s ''iVBORw'' \<or> startsWith s ''R0lGOD''
          \<or> startsWith s ''UklGR'') \<longrightarrow> detectImageMimeType s = ''image/jpeg'')
   \<and> detectImageMimeType_action s = detectImageMimeType s"
  unfolding detectImageMimeType_def detectImageMimeType_action_def by simp

theorem detectImageMimeType_closed_witness:
  "detectImageMimeType ''hello'' = ''image/jpeg''
   \<and> detectImageMimeType_action ''hello'' = ''image/jpeg''
   \<and> detectImageMimeType ''iVBORw0KGgo'' = ''image/png''
   \<and> detectImageMimeType ''R0lGODlh'' = ''image/gif''
   \<and> detectImageMimeType ''UklGRiQ'' = ''image/webp''
   \<and> detectImageMimeType ''/9j/4AAQ'' = ''image/jpeg''"
proof -
  have "\<not> (startsWith ''hello'' ''/9j/'' \<or> startsWith ''hello'' ''iVBORw''
           \<or> startsWith ''hello'' ''R0lGOD'' \<or> startsWith ''hello'' ''UklGR'')"
    by (simp add: startsWith_simps)
  with detectImageMimeType_closed [of "''hello''"]
  have "detectImageMimeType ''hello'' = ''image/jpeg''
        \<and> detectImageMimeType_action ''hello'' = ''image/jpeg''"
    by simp
  moreover have "detectImageMimeType ''iVBORw0KGgo'' = ''image/png''"
    by (simp add: detectImageMimeType_def startsWith_simps)
  moreover have "detectImageMimeType ''R0lGODlh'' = ''image/gif''"
    by (simp add: detectImageMimeType_def startsWith_simps)
  moreover have "detectImageMimeType ''UklGRiQ'' = ''image/webp''"
    by (simp add: detectImageMimeType_def startsWith_simps)
  moreover have "detectImageMimeType ''/9j/4AAQ'' = ''image/jpeg''"
    by (simp add: detectImageMimeType_def startsWith_simps)
  ultimately show ?thesis by simp
qed



lemma calls_llm_log: "calls (llm_log l m s) = calls s"
  by (simp add: llm_log_def)


lemmas str_eval =
  isQuotaOrRate_def isApiKeyError_def toLowerCase_def lowerChar_def includes_str_def
  sublist_code prefix_code



text \<open>
  C3: when the call with the primary key fails with a message classified as quota or
  rate-limit exhaustion and a non-empty backup key different from the primary is
  configured, the run makes exactly two calls, the primary then the backup, inside the
  same execution; when the backup call returns a text the run returns that text, and
  when it fails the run fails with the quota error.
\<close>

theorem llmTask_quota_failover:
  assumes key: "GOOGLE_GEMINI_API_KEY env = Some k" "k \<noteq> []"
    and fail: "generateContent env k (model payload) (llmTask_parts payload) = Inl m"
    and quota: "isQuotaOrRate (toLowerCase m)"
    and backup: "GOOGLE_GEMINI_API_KEY_BACKUP env = Some b" "b \<noteq> []" "b \<noteq> k"
  shows "calls (snd (llmTask env payload s)) =
           calls s @ [(k, model payload, llmTask_parts payload),
                      (b, model payload, llmTask_parts payload)]
         \<and> (case generateContent env b (model payload) (llmTask_parts payload) of
               Inr text \<Rightarrow> fst (llmTask env payload s) = Inr text
             | Inl e \<Rightarrow> fst (llmTask env payload s) = Inl (quotaError m))"
  using assms
  by (auto simp: llmTask_def llmTask_catch_def callGemini_def calls_llm_log Let_def
      split: option.splits sum.splits prod.splits)

theorem llmTask_quota_failover_witness:
  "fst (llmTask llm_env_quota llm_payload1 llm_s0) = Inr ''pong''
   \<and> map fst (calls (snd (llmTask llm_env_quota llm_payload1 llm_s0))) = [''primary'', ''backup'']"
proof -
  have q: "isQuotaOrRate (toLowerCase ''429 Too Many Requests'')"
    by (simp add: str_eval)
  show ?thesis
    using llmTask_quota_failover [of llm_env_quota "''primary''" llm_payload1
        "''429 Too Many Requests''" "''backup''" llm_s0] q
    by (simp add: llm_env_quota_def llm_s0_def)
qed




section \<open>Properties of the workflow actions\<close>

text \<open>
  C10: when no workflow with the given id belongs to the authenticated user,
  \<open>updateWorkflow\<close> and \<open>deleteWorkflow\<close> fail with \<open>Workflow not found\<close> and leave the
  table as it was; whenever either action changes the table, the caller is authenticated
  and the addressed workflow's \<open>userId\<close> is the caller's id; and no row other than the
  addressed one is ever touched.
\<close>

theorem workflow_owner_guard:
  "(auth = Inr user
      \<and> \<not> (\<exists>w. db (in_id input) = Some w \<and> wf_userId w = user_id user)
      \<longrightarrow> updateWorkflow auth input db = (Inl ''Workflow not found'', db)
        \<and> deleteWorkflow auth (in_id input) db = (Inl ''Workflow not found'', db))
   \<and> (snd (updateWorkflow auth input db) \<noteq> db
        \<or> snd (deleteWorkflow auth (in_id input) db) \<noteq> db
      \<longrightarrow> (\<exists>user w. auth = Inr user \<and> db (in_id input) = Some w
             \<and> wf_userId w = user_id user))
   \<and> (\<forall>j. j \<noteq> in_id input
          \<longrightarrow> snd (updateWorkflow auth input db) j = db j
            \<and> snd (deleteWorkflow auth (in_id input) db) j = db j)"
  by (auto simp: updateWorkflow_def deleteWorkflow_def findFirst_def Let_def
      split: sum.splits option.splits if_splits)

theorem workflow_owner_guard_witness:
  "updateWorkflow (Inr bob) rename1 table1 = (Inl ''Workflow not found'', table1)
   \<and> deleteWorkflow (Inr bob) ''w1'' table1 = (Inl ''Workflow not found'', table1)
   \<and> snd (deleteWorkflow (Inr alice) ''w1'' table1) ''w1'' = None
   \<and> map_option wf_name (snd (updateWorkflow (Inr alice) rename1 table1) ''w1'')
       = Some ''renamed''"
proof -
  have f: "\<not> (\<exists>w. table1 (in_id rename1) = Some w \<and> wf_userId w = user_id bob)"
    by (simp add: table1_def rename1_def wf1_def bob_def)
  have a: "updateWorkflow (Inr bob) rename1 table1 = (Inl ''Workflow not found'', table1)
      \<and> deleteWorkflow (Inr bob) ''w1'' table1 = (Inl ''Workflow not found'', table1)"
    using workflow_owner_guard [of "Inr bob" bob table1 rename1] f
    by (simp add: rename1_def)
  have b: "snd (deleteWorkflow (Inr alice) ''w1'' table1) ''w1'' = None"
    by (simp add: deleteWorkflow_def findFirst_def table1_def wf1_def alice_def)
  have c: "map_option wf_name (snd (updateWorkflow (Inr alice) rename1 table1) ''w1'')
      = Some ''renamed''"
    by (simp add: updateWorkflow_def findFirst_def table1_def wf1_def alice_def rename1_def
        applyData_def Let_def)
  show ?thesis using a b c by simp
qed

section \<open>Properties of the media tasks\<close>

subsection \<open>The state through the primitive steps\<close>

lemma st_proj [simp]:
  "polls (logger l m s) = polls s" "files (logger l m s) = files s"
  "posts (logger l m s) = posts s" "execs (logger l m s) = execs s"
  "polls (writeFile p s) = polls s" "files (writeFile p s) = files s @ [p]"
  "posts (writeFile p s) = posts s" "execs (writeFile p s) = execs s"
  "polls (rm_rf d s) = polls s" "posts (rm_rf d s) = posts s" "execs (rm_rf d s) = execs s"
  "polls (snd (post e r s)) = polls s" "files (snd (post e r s)) = files s"
  "posts (snd (post e r s)) = posts s @ [r]" "execs (snd (post e r s)) = execs s"
  "polls (snd (run_exec e c s)) = polls s" "files (snd (run_exec e c s)) = files s"
  "posts (snd (run_exec e c s)) = posts s" "execs (snd (run_exec e c s)) = execs s @ [c]"
  by (simp_all add: logger_def writeFile_def rm_rf_def post_def run_exec_def)

lemma upload_poll_polls:
  "polls (snd (upload_poll e step missing u N a s)) \<le> polls s + (N - a)"
proof (induction e step missing u N a s rule: upload_poll.induct)
  case (1 e step missing u N a s)
  show ?case
  proof (cases "a < N")
    case False
    then show ?thesis by (subst upload_poll.simps) simp
  next
    case True
    show ?thesis
      using True "1.IH" [OF True refl refl]
      by (subst upload_poll.simps) (auto simp: Let_def)
  qed
qed

lemma upload_poll_files:
  "files (snd (upload_poll e step missing u N a s)) = files s"
proof (induction e step missing u N a s rule: upload_poll.induct)
  case (1 e step missing u N a s)
  show ?case
  proof (cases "a < N")
    case False
    then show ?thesis by (subst upload_poll.simps) simp
  next
    case True
    show ?thesis
      using True "1.IH" [OF True refl refl]
      by (subst upload_poll.simps) (auto simp: Let_def)
  qed
qed

lemma upload_poll_url:
  "fst (upload_poll e step missing u N a s) = Inr v \<Longrightarrow> v \<noteq> []"
proof (induction e step missing u N a s rule: upload_poll.induct)
  case (1 e step missing u N a s)
  show ?case
  proof (cases "a < N")
    case False
    with "1.prems" show ?thesis by (subst (asm) upload_poll.simps) simp
  next
    case True
    from "1.prems" True "1.IH" [OF True refl refl]
    show ?thesis
      by (subst (asm) upload_poll.simps)
        (auto simp: Let_def split: if_splits option.splits elim: truthy.elims)
  qed
qed

lemma upload_poll_stalled:
  "(\<forall>k. k < N - a \<longrightarrow> pending (assembly_status e u (polls s + k))) \<Longrightarrow>
   upload_poll e step missing u N a s = (Inl timedOut, s\<lparr>polls := polls s + (N - a)\<rparr>)"
proof (induction e step missing u N a s rule: upload_poll.induct)
  case (1 e step missing u N a s)
  show ?case
  proof (cases "a < N")
    case False
    then show ?thesis by (subst upload_poll.simps) simp
  next
    case True
    let ?s' = "s\<lparr>polls := Suc (polls s)\<rparr>"
    from "1.prems" True have p0: "pending (assembly_status e u (polls s))"
      by (metis add.right_neutral zero_less_diff)
    have rest: "\<forall>k. k < N - Suc a \<longrightarrow> pending (assembly_status e u (polls ?s' + k))"
    proof (intro allI impI)
      fix k assume "k < N - Suc a"
      then have "Suc k < N - a" by simp
      with "1.prems" have "pending (assembly_status e u (polls s + Suc k))" by blast
      then show "pending (assembly_status e u (polls ?s' + k))" by simp
    qed
    have ih: "upload_poll e step missing u N (Suc a) ?s' =
        (Inl timedOut, ?s'\<lparr>polls := polls ?s' + (N - Suc a)\<rparr>)"
      using "1.IH" [OF True refl refl _ _ rest] p0 by (simp add: pending_def)
    show ?thesis
      using True p0 ih
      by (subst upload_poll.simps) (simp add: Let_def pending_def Suc_diff_Suc)
  qed
qed

lemma remote_poll_polls:
  "polls (snd (remote_poll e step u N i s)) \<le> polls s + (N - i)"
proof (induction e step u N i s rule: remote_poll.induct)
  case (1 e step u N i s)
  show ?case
  proof (cases "i < N")
    case False
    then show ?thesis by (subst remote_poll.simps) simp
  next
    case True
    show ?thesis
      using True "1.IH" [OF True refl refl]
      by (subst remote_poll.simps) (auto simp: Let_def)
  qed
qed

lemma remote_poll_files:
  "files (snd (remote_poll e step u N i s)) = files s"
proof (induction e step u N i s rule: remote_poll.induct)
  case (1 e step u N i s)
  show ?case
  proof (cases "i < N")
    case False
    then show ?thesis by (subst remote_poll.simps) simp
  next
    case True
    show ?thesis
      using True "1.IH" [OF True refl refl]
      by (subst remote_poll.simps) (auto simp: Let_def)
  qed
qed

lemma remote_poll_url:
  "fst (remote_poll e step u N i s) = Inr v \<Longrightarrow> v \<noteq> []"
proof (induction e step u N i s rule: remote_poll.induct)
  case (1 e step u N i s)
  show ?case
  proof (cases "i < N")
    case False
    with "1.prems" show ?thesis by (subst (asm) remote_poll.simps) simp
  next
    case True
    from "1.prems" True "1.IH" [OF True refl refl]
    show ?thesis
      by (subst (asm) remote_poll.simps)
        (auto simp: Let_def split: if_splits option.splits elim: truthy.elims)
  qed
qed

lemma remote_poll_stalled:
  "(\<forall>k. k < N - i \<longrightarrow> pending (assembly_status e u (polls s + k))) \<Longrightarrow>
   remote_poll e step u N i s = (Inl timedOut, s\<lparr>polls := polls s + (N - i)\<rparr>)"
proof (induction e step u N i s rule: remote_poll.induct)
  case (1 e step u N i s)
  show ?case
  proof (cases "i < N")
    case False
    then show ?thesis by (subst remote_poll.simps) simp
  next
    case True
    let ?s' = "s\<lparr>polls := Suc (polls s)\<rparr>"
    from "1.prems" True have p0: "pending (assembly_status e u (polls s))"
      by (metis add.right_neutral zero_less_diff)
    show ?thesis
    proof (cases "Suc i = N")
      case last: True
      then have "N - i = 1" by simp
      then show ?thesis
        using True p0 last
        by (subst remote_poll.simps) (simp add: Let_def pending_def)
    next
      case more: False
      have rest: "\<forall>k. k < N - Suc i \<longrightarrow> pending (assembly_status e u (polls ?s' + k))"
      proof (intro allI impI)
        fix k assume "k < N - Suc i"
        then have "Suc k < N - i" by simp
        with "1.prems" have "pending (assembly_status e u (polls s + Suc k))" by blast
        then show "pending (assembly_status e u (polls ?s' + k))" by simp
      qed
      have ih: "remote_poll e step u N (Suc i) ?s' =
          (Inl timedOut, ?s'\<lparr>polls := polls ?s' + (N - Suc i)\<rparr>)"
        using "1.IH" [OF True refl refl _ more rest] p0 by (simp add: pending_def)
      show ?thesis
        using True p0 ih more
        by (subst remote_poll.simps) (simp add: Let_def pending_def Suc_diff_Suc)
    qed
  qed
qed

lemma upload_poll_gave_up:
  assumes "\<forall>u k. k < N \<longrightarrow> pending (assembly_status e u (polls s + k))"
    and "polls s1 = polls s"
  shows "gave_up s N (upload_poll e step missing u N 0 s1)"
proof -
  have "\<forall>k. k < N - 0 \<longrightarrow> pending (assembly_status e u (polls s1 + k))"
    using assms by simp
  from upload_poll_stalled [OF this] show ?thesis
    using assms(2) by (simp add: gave_up_def)
qed

lemma remote_poll_gave_up:
  assumes "\<forall>u k. k < N \<longrightarrow> pending (assembly_status e u (polls s + k))"
    and "polls s1 = polls s"
  shows "gave_up s N (remote_poll e step u N 0 s1)"
proof -
  have "\<forall>k. k < N - 0 \<longrightarrow> pending (assembly_status e u (polls s1 + k))"
    using assms by simp
  from remote_poll_stalled [OF this] show ?thesis
    using assms(2) by (simp add: gave_up_def)
qed

lemma gave_up_early: "polls s' = polls s \<Longrightarrow> gave_up s N (Inl err, s')"
  by (simp add: gave_up_def)

lemma V1_gave_up:
  assumes "\<forall>u k. k < 60 \<longrightarrow> pending (assembly_status e u (polls s + k))"
  shows "gave_up s 60 (uploadCroppedImageToTransloadit e p s)"
  unfolding uploadCroppedImageToTransloadit_def post_def
  by (auto simp: gave_up_early intro!: upload_poll_gave_up [OF assms] split: sum.splits)

lemma V2_gave_up:
  assumes "\<forall>u k. k < 60 \<longrightarrow> pending (assembly_status e u (polls s + k))"
  shows "gave_up s 60 (uploadCroppedImageToTransloaditV2 e p s)"
  unfolding uploadCroppedImageToTransloaditV2_def post_def
  by (auto simp: gave_up_early intro!: upload_poll_gave_up [OF assms] split: sum.splits)

lemma cropVia_gave_up:
  assumes "\<forall>u k. k < 60 \<longrightarrow> pending (assembly_status e u (polls s + k))"
  shows "gave_up s 60 (cropViaTransloadit e url cx cy cw ch s)"
  unfolding cropViaTransloadit_def post_def
  by (auto simp: gave_up_early intro!: remote_poll_gave_up [OF assms] split: sum.splits)

lemma uploadFrame_gave_up:
  assumes "\<forall>u k. k < 90 \<longrightarrow> pending (assembly_status e u (polls s + k))"
  shows "gave_up s 90 (uploadFrameToTransloadit e p s)"
  unfolding uploadFrameToTransloadit_def post_def
  by (auto simp: gave_up_early intro!: upload_poll_gave_up [OF assms] split: sum.splits)

lemma extractVia_gave_up:
  assumes "\<forall>u k. k < 90 \<longrightarrow> pending (assembly_status e u (polls s + k))"
  shows "gave_up s 90 (extractFrameViaTransloadit e url off s)"
  unfolding extractFrameViaTransloadit_def post_def
  by (auto simp: gave_up_early intro!: remote_poll_gave_up [OF assms] split: sum.splits)

text \<open>What each operation does to the state, in the form "if it ends in (r, s') then ...".\<close>

lemma upload_poll_run:
  assumes "upload_poll e step missing u N 0 s1 = (r, s')"
  shows "polls s' \<le> polls s1 + N \<and> files s' = files s1 \<and> (\<forall>v. r = Inr v \<longrightarrow> v \<noteq> [])"
  using upload_poll_polls [of e step missing u N 0 s1] upload_poll_files [of e step missing u N 0 s1]
    upload_poll_url [of e step missing u N 0 s1] assms
  by simp

lemma remote_poll_run:
  assumes "remote_poll e step u N 0 s1 = (r, s')"
  shows "polls s' \<le> polls s1 + N \<and> files s' = files s1 \<and> (\<forall>v. r = Inr v \<longrightarrow> v \<noteq> [])"
  using remote_poll_polls [of e step u N 0 s1] remote_poll_files [of e step u N 0 s1]
    remote_poll_url [of e step u N 0 s1] assms
  by simp

lemma V1_run:
  assumes "uploadCroppedImageToTransloadit e p s = (r, s')"
  shows "polls s' \<le> polls s + 60 \<and> files s' = files s \<and> (\<forall>v. r = Inr v \<longrightarrow> v \<noteq> [])"
  using assms unfolding uploadCroppedImageToTransloadit_def post_def
  by (auto split: sum.splits if_splits dest!: upload_poll_run)

lemma V2_run:
  assumes "uploadCroppedImageToTransloaditV2 e p s = (r, s')"
  shows "polls s' \<le> polls s + 60 \<and> files s' = files s \<and> (\<forall>v. r = Inr v \<longrightarrow> v \<noteq> [])"
  using assms unfolding uploadCroppedImageToTransloaditV2_def post_def
  by (auto split: sum.splits if_splits dest!: upload_poll_run)

lemma cropVia_run:
  assumes "cropViaTransloadit e url cx cy cw ch s = (r, s')"
  shows "polls s' \<le> polls s + 60 \<and> files s' = files s \<and> (\<forall>v. r = Inr v \<longrightarrow> v \<noteq> [])"
  using assms unfolding cropViaTransloadit_def post_def
  by (auto split: sum.splits if_splits dest!: remote_poll_run)

lemma uploadFrame_run:
  assumes "uploadFrameToTransloadit e p s = (r, s')"
  shows "polls s' \<le> polls s + 90 \<and> files s' = files s \<and> (\<forall>v. r = Inr v \<longrightarrow> v \<noteq> [])"
  using assms unfolding uploadFrameToTransloadit_def post_def
  by (auto split: sum.splits if_splits dest!: upload_poll_run)

lemma extractVia_run:
  assumes "extractFrameViaTransloadit e url off s = (r, s')"
  shows "polls s' \<le> polls s + 90 \<and> files s' = files s \<and> (\<forall>v. r = Inr v \<longrightarrow> v \<noteq> [])"
  using assms unfolding extractFrameViaTransloadit_def post_def
  by (auto split: sum.splits if_splits dest!: remote_poll_run)

lemma crop_ffmpeg_upload_run:
  assumes "crop_ffmpeg_upload e inp outp rect s = (r, s')"
  shows "polls s' \<le> polls s + 60 \<and> (\<forall>v. r = Inr v \<longrightarrow> v \<noteq> [])
     \<and> (files s' = files s \<or> files s' = files s @ [outp])"
  using assms unfolding crop_ffmpeg_upload_def run_exec_def
  by (auto split: sum.splits if_splits prod.splits dest!: V2_run)

lemma step3_run:
  assumes "cropImageTask_step3 e payload inp outp rect s = (r, s')"
  shows "polls s' \<le> polls s + 120 \<and> (\<forall>v. r = Inr v \<longrightarrow> v \<noteq> [])
     \<and> (files s' = files s \<or> files s' = files s @ [outp])"
  using assms unfolding cropImageTask_step3_def
  by (auto split: sum.splits if_splits prod.splits dest!: crop_ffmpeg_upload_run cropVia_run)

lemma getVideoDuration_run:
  assumes "getVideoDuration e p s = (r, s')"
  shows "polls s' = polls s \<and> files s' = files s"
  using assms unfolding getVideoDuration_def run_exec_def
  by (auto simp: Let_def split: sum.splits if_splits prod.splits option.splits)

lemma resolveTimestamp_run:
  assumes "resolveTimestamp e payload p s = (r, s')"
  shows "polls s' = polls s \<and> files s' = files s"
  using assms unfolding resolveTimestamp_def
  by (auto split: sum.splits if_splits prod.splits option.splits dest!: getVideoDuration_run)

lemma step4_run:
  assumes "extractFrameTask_step4 e payload fp ts s = (r, s')"
  shows "polls s' \<le> polls s + 180 \<and> (\<forall>v. r = Inr v \<longrightarrow> v \<noteq> []) \<and> files s' = files s"
  using assms unfolding extractFrameTask_step4_def
  by (auto split: sum.splits if_splits prod.splits dest!: uploadFrame_run extractVia_run)

lemma extract_ffmpeg_upload_run:
  assumes "extract_ffmpeg_upload e payload vp fp s = (r, s')"
  shows "polls s' \<le> polls s + 180 \<and> (\<forall>v. r = Inr v \<longrightarrow> v \<noteq> [])
     \<and> (\<exists>xs. files s' = files s @ xs \<and> set xs \<subseteq> {vp, fp})"
  using assms unfolding extract_ffmpeg_upload_def run_exec_def
  by (auto simp: Let_def split: sum.splits if_splits prod.splits
      dest!: step4_run resolveTimestamp_run)

lemma chain_run:
  assumes "extractFrameTask_chain e payload vp fp s = (r, s')"
  shows "polls s' \<le> polls s + 270 \<and> (\<forall>v. r = Inr v \<longrightarrow> v \<noteq> [])
     \<and> (\<exists>xs. files s' = files s @ xs \<and> set xs \<subseteq> {vp, fp})"
  using assms unfolding extractFrameTask_chain_def
  by (auto split: sum.splits if_splits prod.splits dest!: extract_ffmpeg_upload_run extractVia_run)

subsection \<open>The tasks as wholes\<close>

lemma inside_join: "inside d (path_join d name)"
  by (simp add: inside_def path_join_def)

lemma inside_self: "inside d d"
  by (simp add: inside_def)

lemma cropImageTask_try_run:
  assumes "cropImageTask_try e cp d s = (r, s')"
  shows "polls s' \<le> polls s + 120
     \<and> filter (\<lambda>p. \<not> inside d p) (files s') = filter (\<lambda>p. \<not> inside d p) (files s)"
proof (cases "res_ok (fetch e (imageUrl cp))")
  case False
  with assms show ?thesis by (simp add: cropImageTask_try_def Let_def)
next
  case ok: True
  let ?inp = "path_join d ''input.jpg''"
  let ?outp = "path_join d ''output.jpg''"
  show ?thesis
  proof (cases "getImageDimensions e ?inp")
    case (Inl err)
    with assms ok show ?thesis
      by (auto simp: cropImageTask_try_def Let_def inside_join)
  next
    case (Inr wh)
    obtain W H where wh: "wh = (W, H)" by (cases wh)
    let ?s2 = "logger Info ''Crop dimensions'' (writeFile ?inp s)"
    let ?rect = "cropRect W H (cropX cp) (cropY cp) (cropWidth cp) (cropHeight cp)"
    obtain r3 s3 where s3: "cropImageTask_step3 e cp ?inp ?outp ?rect ?s2 = (r3, s3)"
      by (cases "cropImageTask_step3 e cp ?inp ?outp ?rect ?s2")
    from step3_run [OF s3]
    have p: "polls s3 \<le> polls s + 120"
      and f: "files s3 = files s @ [?inp] \<or> files s3 = files s @ [?inp, ?outp]"
      by auto
    from f have k: "filter (\<lambda>p. \<not> inside d p) (files s3) = filter (\<lambda>p. \<not> inside d p) (files s)"
      by (auto simp: inside_join)
    from assms ok Inr wh s3 have "s' = s3 \<or> s' = logger Info ''Crop image task completed'' s3"
      by (auto simp: cropImageTask_try_def Let_def split: sum.splits if_splits)
    with p k show ?thesis by auto
  qed
qed

lemma extractFrameTask_try_run:
  assumes "extractFrameTask_try e ep d s = (r, s')"
  shows "polls s' \<le> polls s + 270
     \<and> filter (\<lambda>p. \<not> inside d p) (files s') = filter (\<lambda>p. \<not> inside d p) (files s)"
proof -
  let ?vp = "path_join d ''video''"
  let ?fp = "path_join d ''frame.jpg''"
  obtain r1 s1 where s1: "extractFrameTask_chain e ep ?vp ?fp s = (r1, s1)"
    by (cases "extractFrameTask_chain e ep ?vp ?fp s")
  from chain_run [OF s1] obtain xs
    where p: "polls s1 \<le> polls s + 270"
      and f: "files s1 = files s @ xs" and x: "set xs \<subseteq> {?vp, ?fp}"
    by auto
  from x have "\<forall>p\<in>set xs. inside d p"
    using inside_join by blast
  then have "filter (\<lambda>p. \<not> inside d p) xs = []"
    by (simp add: filter_empty_conv)
  with f have k: "filter (\<lambda>p. \<not> inside d p) (files s1) = filter (\<lambda>p. \<not> inside d p) (files s)"
    by simp
  from assms s1 have "s' = s1 \<or> s' = logger Info ''Extract frame task completed'' s1"
    by (auto simp: extractFrameTask_try_def Let_def split: sum.splits if_splits)
  with p k show ?thesis by auto
qed

lemma cropImageTask_files:
  "files (snd (cropImageTask e cp s)) =
     filter (\<lambda>p. \<not> inside (mkdtemp e (path_join (os_tmpdir e) ''crop-'')) p) (files s)"
proof -
  let ?d = "mkdtemp e (path_join (os_tmpdir e) ''crop-'')"
  let ?s2 = "writeFile ?d (logger Info ''Starting crop image task (FFmpeg)'' s)"
  obtain r s3 where s3: "cropImageTask_try e cp ?d ?s2 = (r, s3)"
    by (cases "cropImageTask_try e cp ?d ?s2")
  from cropImageTask_try_run [OF s3]
  have "filter (\<lambda>p. \<not> inside ?d p) (files s3) = filter (\<lambda>p. \<not> inside ?d p) (files s)"
    by (simp add: inside_self)
  with s3 show ?thesis
    by (simp add: cropImageTask_def Let_def rm_rf_def)
qed

lemma extractFrameTask_files:
  "files (snd (extractFrameTask e ep s)) =
     filter (\<lambda>p. \<not> inside (mkdtemp e (path_join (os_tmpdir e) ''extract-frame-'')) p) (files s)"
proof -
  let ?d = "mkdtemp e (path_join (os_tmpdir e) ''extract-frame-'')"
  let ?s2 = "writeFile ?d (logger Info ''Starting extract frame task (FFmpeg)'' s)"
  obtain r s3 where s3: "extractFrameTask_try e ep ?d ?s2 = (r, s3)"
    by (cases "extractFrameTask_try e ep ?d ?s2")
  from extractFrameTask_try_run [OF s3]
  have "filter (\<lambda>p. \<not> inside ?d p) (files s3) = filter (\<lambda>p. \<not> inside ?d p) (files s)"
    by (simp add: inside_self)
  with s3 show ?thesis
    by (simp add: extractFrameTask_def Let_def rm_rf_def)
qed

lemma cropImageTask_polls: "polls (snd (cropImageTask e cp s)) \<le> polls s + 120"
proof -
  let ?d = "mkdtemp e (path_join (os_tmpdir e) ''crop-'')"
  let ?s2 = "writeFile ?d (logger Info ''Starting crop image task (FFmpeg)'' s)"
  obtain r s3 where s3: "cropImageTask_try e cp ?d ?s2 = (r, s3)"
    by (cases "cropImageTask_try e cp ?d ?s2")
  from cropImageTask_try_run [OF s3] have "polls s3 \<le> polls s + 120" by simp
  with s3 show ?thesis
    by (simp add: cropImageTask_def Let_def)
qed

lemma extractFrameTask_polls: "polls (snd (extractFrameTask e ep s)) \<le> polls s + 270"
proof -
  let ?d = "mkdtemp e (path_join (os_tmpdir e) ''extract-frame-'')"
  let ?s2 = "writeFile ?d (logger Info ''Starting extract frame task (FFmpeg)'' s)"
  obtain r s3 where s3: "extractFrameTask_try e ep ?d ?s2 = (r, s3)"
    by (cases "extractFrameTask_try e ep ?d ?s2")
  from extractFrameTask_try_run [OF s3] have "polls s3 \<le> polls s + 270" by simp
  with s3 show ?thesis
    by (simp add: extractFrameTask_def Let_def)
qed

lemma V1_polls: "polls (snd (uploadCroppedImageToTransloadit e p s)) \<le> polls s + 60"
  using V1_run [where r = "fst (uploadCroppedImageToTransloadit e p s)" and s' = "snd (uploadCroppedImageToTransloadit e p s)"] by simp

lemma V2_polls: "polls (snd (uploadCroppedImageToTransloaditV2 e p s)) \<le> polls s + 60"
  using V2_run [where r = "fst (uploadCroppedImageToTransloaditV2 e p s)" and s' = "snd (uploadCroppedImageToTransloaditV2 e p s)"] by simp

lemma cropVia_polls: "polls (snd (cropViaTransloadit e url cx cy cw ch s)) \<le> polls s + 60"
  using cropVia_run [where r = "fst (cropViaTransloadit e url cx cy cw ch s)" and s' = "snd (cropViaTransloadit e url cx cy cw ch s)"] by simp

lemma uploadFrame_polls: "polls (snd (uploadFrameToTransloadit e p s)) \<le> polls s + 90"
  using uploadFrame_run [where r = "fst (uploadFrameToTransloadit e p s)" and s' = "snd (uploadFrameToTransloadit e p s)"] by simp

lemma extractVia_polls: "polls (snd (extractFrameViaTransloadit e url off s)) \<le> polls s + 90"
  using extractVia_run [where r = "fst (extractFrameViaTransloadit e url off s)" and s' = "snd (extractFrameViaTransloadit e url off s)"] by simp

text \<open>
  C6: each of the five operations that wait for an assembly fetches its status at most
  60 times (the two crop uploads and the remote crop) or 90 times (the frame upload and
  the remote frame extraction), whatever the backend answers, so a whole crop run makes
  at most 120 status fetches and a whole frame-extraction run at most 270; and when
  every status answer within the ceiling is neither completed nor an error, each
  operation either failed before its first fetch or fails with
  \<open>Transloadit assembly timed out\<close> after exactly its ceiling of fetches.
\<close>

theorem poll_ceiling:
  "polls (snd (uploadCroppedImageToTransloadit e p s)) \<le> polls s + 60
   \<and> polls (snd (uploadCroppedImageToTransloaditV2 e p s)) \<le> polls s + 60
   \<and> polls (snd (cropViaTransloadit e url cx cy cw ch s)) \<le> polls s + 60
   \<and> polls (snd (uploadFrameToTransloadit e p s)) \<le> polls s + 90
   \<and> polls (snd (extractFrameViaTransloadit e url off s)) \<le> polls s + 90
   \<and> polls (snd (cropImageTask e cp s)) \<le> polls s + 120
   \<and> polls (snd (extractFrameTask e ep s)) \<le> polls s + 270
   \<and> ((\<forall>u k. k < 90 \<longrightarrow> pending (assembly_status e u (polls s + k))) \<longrightarrow>
        gave_up s 60 (uploadCroppedImageToTransloadit e p s)
        \<and> gave_up s 60 (uploadCroppedImageToTransloaditV2 e p s)
        \<and> gave_up s 60 (cropViaTransloadit e url cx cy cw ch s)
        \<and> gave_up s 90 (uploadFrameToTransloadit e p s)
        \<and> gave_up s 90 (extractFrameViaTransloadit e url off s))"
proof -
  have g: "gave_up s 60 (uploadCroppedImageToTransloadit e p s)
        \<and> gave_up s 60 (uploadCroppedImageToTransloaditV2 e p s)
        \<and> gave_up s 60 (cropViaTransloadit e url cx cy cw ch s)
        \<and> gave_up s 90 (uploadFrameToTransloadit e p s)
        \<and> gave_up s 90 (extractFrameViaTransloadit e url off s)"
    if stall: "\<forall>u k. k < 90 \<longrightarrow> pending (assembly_status e u (polls s + k))"
  proof -
    from stall have stall60: "\<forall>u k. k < 60 \<longrightarrow> pending (assembly_status e u (polls s + k))"
      by simp
    show ?thesis
      by (intro conjI V1_gave_up V2_gave_up cropVia_gave_up uploadFrame_gave_up
          extractVia_gave_up stall stall60)
  qed
  have bounds: "polls (snd (uploadCroppedImageToTransloadit e p s)) \<le> polls s + 60
   \<and> polls (snd (uploadCroppedImageToTransloaditV2 e p s)) \<le> polls s + 60
   \<and> polls (snd (cropViaTransloadit e url cx cy cw ch s)) \<le> polls s + 60
   \<and> polls (snd (uploadFrameToTransloadit e p s)) \<le> polls s + 90
   \<and> polls (snd (extractFrameViaTransloadit e url off s)) \<le> polls s + 90
   \<and> polls (snd (cropImageTask e cp s)) \<le> polls s + 120
   \<and> polls (snd (extractFrameTask e ep s)) \<le> polls s + 270"
    by (simp only: V1_polls V2_polls cropVia_polls uploadFrame_polls extractVia_polls
        cropImageTask_polls extractFrameTask_polls simp_thms)
  from bounds g show ?thesis by simp
qed

theorem poll_ceiling_witness:
  "extractFrameViaTransloadit world_stalled ''https://v/clip.mp4'' 30 st0 =
     (Inl timedOut, st0\<lparr>posts := [ThumbsFromUrl ''key'' ''https://v/clip.mp4'' 30], polls := 90\<rparr>)
   \<and> gave_up st0 90 (extractFrameViaTransloadit world_stalled ''https://v/clip.mp4'' 30 st0)"
proof -
  have stall: "\<forall>u k. k < 90 \<longrightarrow> pending (assembly_status world_stalled u (polls st0 + k))"
    by (simp add: world_stalled_def world_ok_def pending_def executing_def)
  have g: "gave_up st0 90 (extractFrameViaTransloadit world_stalled ''https://v/clip.mp4'' 30 st0)"
    using poll_ceiling [of world_stalled undefined st0 "''https://v/clip.mp4''" 0 0 0 0 30] stall
    by simp
  let ?s1 = "st0\<lparr>posts := [ThumbsFromUrl ''key'' ''https://v/clip.mp4'' 30]\<rparr>"
  have start: "extractFrameViaTransloadit world_stalled ''https://v/clip.mp4'' 30 st0 =
      remote_poll world_stalled ''frame'' ''https://api2/assemblies/1'' 90 0 ?s1"
    by (simp add: extractFrameViaTransloadit_def post_def world_stalled_def world_ok_def st0_def)
  have "\<forall>k. k < 90 - 0 \<longrightarrow>
      pending (assembly_status world_stalled ''https://api2/assemblies/1'' (polls ?s1 + k))"
    by (simp add: world_stalled_def world_ok_def pending_def executing_def)
  from remote_poll_stalled [OF this] start g show ?thesis
    by (simp add: st0_def)
qed

lemma extractFrameTask_result:
  "fst (extractFrameTask e ep s) =
       fst (extractFrameTask_chain e ep
             (path_join (mkdtemp e (path_join (os_tmpdir e) ''extract-frame-'')) ''video'')
             (path_join (mkdtemp e (path_join (os_tmpdir e) ''extract-frame-'')) ''frame.jpg'')
             (writeFile (mkdtemp e (path_join (os_tmpdir e) ''extract-frame-''))
                (logger Info ''Starting extract frame task (FFmpeg)'' s)))"
  (is "_ = fst (extractFrameTask_chain e ep ?vp ?fp ?s2)")
proof (cases "extractFrameTask_chain e ep ?vp ?fp ?s2")
  case (Pair r s1)
  show ?thesis
  proof (cases r)
    case (Inl err)
    with Pair show ?thesis
      by (simp add: extractFrameTask_def extractFrameTask_try_def Let_def)
  next
    case (Inr url)
    with chain_run [OF Pair] have "url \<noteq> []" by simp
    with Pair Inr show ?thesis
      by (simp add: extractFrameTask_def extractFrameTask_try_def Let_def)
  qed
qed

lemma cropImageTask_result:
  assumes "res_ok (fetch e (imageUrl cp))"
    and "getImageDimensions e
             (path_join (mkdtemp e (path_join (os_tmpdir e) ''crop-'')) ''input.jpg'') = Inr (W, H)"
  shows "fst (cropImageTask e cp s) =
          fst (cropImageTask_step3 e cp
                (path_join (mkdtemp e (path_join (os_tmpdir e) ''crop-'')) ''input.jpg'')
                (path_join (mkdtemp e (path_join (os_tmpdir e) ''crop-'')) ''output.jpg'')
                (cropRect W H (cropX cp) (cropY cp) (cropWidth cp) (cropHeight cp))
                (logger Info ''Crop dimensions''
                  (writeFile (path_join (mkdtemp e (path_join (os_tmpdir e) ''crop-'')) ''input.jpg'')
                    (writeFile (mkdtemp e (path_join (os_tmpdir e) ''crop-''))
                      (logger Info ''Starting crop image task (FFmpeg)'' s)))))"
  (is "_ = fst (cropImageTask_step3 e cp ?inp ?outp ?rect ?s2)")
proof (cases "cropImageTask_step3 e cp ?inp ?outp ?rect ?s2")
  case (Pair r s1)
  show ?thesis
  proof (cases r)
    case (Inl err)
    with Pair assms show ?thesis
      by (simp add: cropImageTask_def cropImageTask_try_def Let_def)
  next
    case (Inr url)
    with step3_run [OF Pair] have "url \<noteq> []" by simp
    with Pair Inr assms show ?thesis
      by (simp add: cropImageTask_def cropImageTask_try_def Let_def)
  qed
qed

text \<open>
  C5: step 3 of the crop task and the \<open>try\<close>/\<open>catch\<close> of the frame-extraction task
  are the specification's fallback chain with two strategies, the local
  FFmpeg-then-upload strategy first and the remote strategy last: the first success is
  returned, a failure of the local strategy is logged as a warning before the remote
  one is tried, and a failure of the remote strategy is the chain's failure. Inside the
  local strategy of the frame extraction, the upload is itself the first strategy of
  such a chain, with the remote extraction at the resolved timestamp as its fallback.
  Each task returns what its chain returns (for the crop, once the download and the
  dimensions have succeeded).
\<close>

theorem fallback_chain_refines:
  "cropImageTask_step3 e cp inp outp rect =
     fallbackChain [(crop_ffmpeg_upload e inp outp rect, cropWarning)]
       (cropViaTransloadit e (imageUrl cp) (cropX cp) (cropY cp) (cropWidth cp) (cropHeight cp))
   \<and> extractFrameTask_chain e ep vp fp =
     fallbackChain [(extract_ffmpeg_upload e ep vp fp, extractWarning)]
       (extractFrameViaTransloadit e (videoUrl ep) (offsetSeconds ep))
   \<and> extractFrameTask_step4 e ep fp ts =
     fallbackChain [(uploadFrameToTransloadit e fp, uploadWarning)]
       (extractFrameViaTransloadit e (videoUrl ep) ts)
   \<and> fst (extractFrameTask e ep s) =
       fst (extractFrameTask_chain e ep
             (path_join (mkdtemp e (path_join (os_tmpdir e) ''extract-frame-'')) ''video'')
             (path_join (mkdtemp e (path_join (os_tmpdir e) ''extract-frame-'')) ''frame.jpg'')
             (writeFile (mkdtemp e (path_join (os_tmpdir e) ''extract-frame-''))
                (logger Info ''Starting extract frame task (FFmpeg)'' s)))
   \<and> (res_ok (fetch e (imageUrl cp))
        \<and> getImageDimensions e
             (path_join (mkdtemp e (path_join (os_tmpdir e) ''crop-'')) ''input.jpg'') = Inr (W, H)
      \<longrightarrow> fst (cropImageTask e cp s) =
          fst (cropImageTask_step3 e cp
                (path_join (mkdtemp e (path_join (os_tmpdir e) ''crop-'')) ''input.jpg'')
                (path_join (mkdtemp e (path_join (os_tmpdir e) ''crop-'')) ''output.jpg'')
                (cropRect W H (cropX cp) (cropY cp) (cropWidth cp) (cropHeight cp))
                (logger Info ''Crop dimensions''
                  (writeFile (path_join (mkdtemp e (path_join (os_tmpdir e) ''crop-'')) ''input.jpg'')
                    (writeFile (mkdtemp e (path_join (os_tmpdir e) ''crop-''))
                      (logger Info ''Starting crop image task (FFmpeg)'' s))))))"
proof -
  have a: "cropImageTask_step3 e cp inp outp rect =
     fallbackChain [(crop_ffmpeg_upload e inp outp rect, cropWarning)]
       (cropViaTransloadit e (imageUrl cp) (cropX cp) (cropY cp) (cropWidth cp) (cropHeight cp))"
    by (rule ext) (simp add: cropImageTask_step3_def split: prod.splits sum.splits)
  have b: "extractFrameTask_chain e ep vp fp =
     fallbackChain [(extract_ffmpeg_upload e ep vp fp, extractWarning)]
       (extractFrameViaTransloadit e (videoUrl ep) (offsetSeconds ep))"
    by (rule ext) (simp add: extractFrameTask_chain_def split: prod.splits sum.splits)
  have c: "extractFrameTask_step4 e ep fp ts =
     fallbackChain [(uploadFrameToTransloadit e fp, uploadWarning)]
       (extractFrameViaTransloadit e (videoUrl ep) ts)"
    by (rule ext) (simp add: extractFrameTask_step4_def split: prod.splits sum.splits)
  show ?thesis
    by (intro conjI impI a b c extractFrameTask_result cropImageTask_result) simp_all
qed

theorem fallback_chain_refines_witness:
  "fst (cropImageTask world_no_ffmpeg crop_payload1 st0) = Inr ''https://cdn/cropped.jpg''
   \<and> fst (extractFrameTask world_no_upload extract_payload1 st0) = Inr ''https://cdn/frame.jpg''"
proof -
  let ?e = world_no_ffmpeg
  let ?d = "mkdtemp ?e (path_join (os_tmpdir ?e) ''crop-'')"
  let ?inp = "path_join ?d ''input.jpg''"
  let ?outp = "path_join ?d ''output.jpg''"
  let ?rect = "cropRect 1000 500 (cropX crop_payload1) (cropY crop_payload1)
                 (cropWidth crop_payload1) (cropHeight crop_payload1)"
  let ?s2 = "logger Info ''Crop dimensions''
               (writeFile ?inp (writeFile ?d (logger Info ''Starting crop image task (FFmpeg)'' st0)))"
  have h: "res_ok (fetch ?e (imageUrl crop_payload1))
      \<and> getImageDimensions ?e ?inp = Inr (1000, 500)"
    by (simp add: world_no_ffmpeg_def world_ok_def getImageDimensions_def)
  from h fallback_chain_refines [where e = ?e and cp = crop_payload1 and s = st0
      and W = 1000 and H = 500 and inp = ?inp and outp = ?outp and rect = ?rect]
  have 1: "fst (cropImageTask ?e crop_payload1 st0) =
      fst (fallbackChain [(crop_ffmpeg_upload ?e ?inp ?outp ?rect, cropWarning)]
            (cropViaTransloadit ?e (imageUrl crop_payload1) (cropX crop_payload1)
              (cropY crop_payload1) (cropWidth crop_payload1) (cropHeight crop_payload1)) ?s2)"
    by simp
  have 2: "fst (fallbackChain [(crop_ffmpeg_upload ?e ?inp ?outp ?rect, cropWarning)]
            (cropViaTransloadit ?e (imageUrl crop_payload1) (cropX crop_payload1)
              (cropY crop_payload1) (cropWidth crop_payload1) (cropHeight crop_payload1)) ?s2)
      = Inr ''https://cdn/cropped.jpg''"
    by code_simp
  let ?w = world_no_upload
  let ?dx = "mkdtemp ?w (path_join (os_tmpdir ?w) ''extract-frame-'')"
  let ?vp = "path_join ?dx ''video''"
  let ?fp = "path_join ?dx ''frame.jpg''"
  let ?sx = "writeFile ?dx (logger Info ''Starting extract frame task (FFmpeg)'' st0)"
  from fallback_chain_refines [where e = ?w and ep = extract_payload1 and s = st0
      and vp = ?vp and fp = ?fp]
  have 3: "fst (extractFrameTask ?w extract_payload1 st0) =
      fst (fallbackChain [(extract_ffmpeg_upload ?w extract_payload1 ?vp ?fp, extractWarning)]
            (extractFrameViaTransloadit ?w (videoUrl extract_payload1)
              (offsetSeconds extract_payload1)) ?sx)"
    by simp
  have 4: "fst (fallbackChain [(extract_ffmpeg_upload ?w extract_payload1 ?vp ?fp, extractWarning)]
            (extractFrameViaTransloadit ?w (videoUrl extract_payload1)
              (offsetSeconds extract_payload1)) ?sx)
      = Inr ''https://cdn/frame.jpg''"
    by code_simp
  from 1 2 3 4 show ?thesis by simp
qed

text \<open>
  C7: after a crop run and after a frame-extraction run, whatever the outcome, no path
  at or under the run's scratch directory is left; the file system is what it was
  before the run, less anything that was under that directory's name.
\<close>

theorem scratch_removed:
  "(\<forall>p\<in>set (files (snd (cropImageTask e cp s))).
       \<not> inside (mkdtemp e (path_join (os_tmpdir e) ''crop-'')) p)
   \<and> (\<forall>p\<in>set (files (snd (extractFrameTask e ep s))).
       \<not> inside (mkdtemp e (path_join (os_tmpdir e) ''extract-frame-'')) p)
   \<and> files (snd (cropImageTask e cp s)) =
       filter (\<lambda>p. \<not> inside (mkdtemp e (path_join (os_tmpdir e) ''crop-'')) p) (files s)
   \<and> files (snd (extractFrameTask e ep s)) =
       filter (\<lambda>p. \<not> inside (mkdtemp e (path_join (os_tmpdir e) ''extract-frame-'')) p) (files s)"
  by (simp add: cropImageTask_files extractFrameTask_files)

theorem scratch_removed_witness:
  "files (snd (cropImageTask world_stalled crop_payload1 st1)) = [''/srv/keep.txt'']
   \<and> files (snd (extractFrameTask world_offline extract_payload1 st1))
       = [''/srv/keep.txt'', ''/tmp/crop-Ab12/stale.jpg'']"
  using scratch_removed [of world_stalled crop_payload1 st1 extract_payload1]
    scratch_removed [of world_offline crop_payload1 st1 extract_payload1]
  by (simp add: st1_def st0_def world_stalled_def world_offline_def world_ok_def path_join_def
      inside_def prefix_code)



text \<open>
  When a percentage is given and the duration is probed, the local strategy extracts at
  duration * percent / 100.
\<close>

lemma resolveTimestamp_percent:
  assumes "timestampPercent ep = Some percent"
    and "getVideoDuration e vp s = (Inr duration, s1)"
  shows "fst (resolveTimestamp e ep vp s) = Inr (duration * percent / 100)"
  using assms by (simp add: resolveTimestamp_def)

text \<open>
  C1: with a percentage of 50 and a video of 120 seconds, a run in a world without the
  FFmpeg binary probes the duration, fails to find FFmpeg and asks the remote strategy
  for the frame at offset 30, that is 50 percent of an assumed 60 seconds, not at 60;
  the run succeeds with that frame. In the world with FFmpeg the same payload extracts
  at 60.
\<close>

theorem extract_remote_offset:
  "timestampPercent extract_payload1 = Some 50
   \<and> parseFloat world_no_ffmpeg ''120.000000'' = Some 120
   \<and> execs (snd (extractFrameTask world_no_ffmpeg extract_payload1 st0))
       = [FfprobeDuration ''/bin/ffprobe'' ''/tmp/extract-frame-Ab12/video'']
   \<and> posts (snd (extractFrameTask world_no_ffmpeg extract_payload1 st0))
       = [ThumbsFromUrl ''key'' ''https://v/clip.mp4'' 30]
   \<and> fst (extractFrameTask world_no_ffmpeg extract_payload1 st0) = Inr ''https://cdn/frame.jpg''
   \<and> execs (snd (extractFrameTask world_ok extract_payload1 st0))
       = [FfprobeDuration ''/bin/ffprobe'' ''/tmp/extract-frame-Ab12/video'',
          FfmpegFrame ''/bin/ffmpeg'' 60 ''/tmp/extract-frame-Ab12/video''
            ''/tmp/extract-frame-Ab12/frame.jpg'']"
  by code_simp

end
